theory Spec2Isabelle
  imports Complex_Main
begin

section \<open>Numbers\<close>

text \<open>
  The TypeScript sources compute with the JavaScript \<open>number\<close> type. Prices, volumes and
  pixel measures are modelled as exact rationals (\<open>rat\<close>); epoch timestamps, which the
  sources only floor-divide and multiply, are modelled as \<open>int\<close>. \<open>NaN\<close> and the
  infinities are outside the model.
\<close>

text \<open>\<open>Math.round\<close>: the nearest integer, a tie going towards plus infinity.\<close>

definition js_round :: "rat \<Rightarrow> int" where
  "js_round x = \<lfloor>x + 1 / 2\<rfloor>"

section \<open>Data model (\<open>lib/types.ts\<close>)\<close>

record BidAskLevel =
  price :: rat
  bidVol :: rat
  askVol :: rat

section \<open>Imbalance classification (\<open>isImbalance\<close>)\<close>

datatype imbalance = Bid | Ask

text \<open>The source returns \<open>'bid' | 'ask' | null\<close>; \<open>null\<close> is \<open>None\<close>.\<close>

definition isImbalance :: "rat \<Rightarrow> rat \<Rightarrow> imbalance option" where
  "isImbalance bidVol' askVol' =
     (if bidVol' \<ge> askVol' * 3 then Some Bid
      else if askVol' \<ge> bidVol' * 3 then Some Ask
      else None)"

section \<open>The live trade aggregator (\<open>BybitConnector\<close>)\<close>

text \<open>
  \<open>OrderFlowCandle.timestamp\<close> is the ISO string of an epoch-millisecond instant
  (\<open>new Date(ms).toISOString()\<close>); the model keeps the instant itself. The field
  \<open>open\<close> is written \<open>open'\<close>. \<open>cvd\<close> is optional in the interface, hence an option.
\<close>

record OrderFlowCandle =
  timestamp :: int
  open' :: rat
  high :: rat
  low :: rat
  close :: rat
  bidAskData :: "BidAskLevel list"
  delta :: rat
  volume :: rat
  cvd :: "rat option"

text \<open>
  A trade of the public trade stream, with the fields the aggregator reads: \<open>T\<close> (epoch
  milliseconds), \<open>S\<close> (side), and \<open>v\<close>, \<open>p\<close> after \<open>parseFloat\<close>.
\<close>

record BybitTrade =
  trade_T :: int
  trade_S :: string
  trade_v :: rat
  trade_p :: rat

datatype Timeframe = M1 | M5 | M15 | M30 | H1 | H4 | H12 | D1 | W1 | Mo1

fun getTimeframeMs :: "Timeframe \<Rightarrow> int" where
  "getTimeframeMs M1 = 1 * 60 * 1000"
| "getTimeframeMs M5 = 5 * 60 * 1000"
| "getTimeframeMs M15 = 15 * 60 * 1000"
| "getTimeframeMs M30 = 30 * 60 * 1000"
| "getTimeframeMs H1 = 60 * 60 * 1000"
| "getTimeframeMs H4 = 4 * 60 * 60 * 1000"
| "getTimeframeMs H12 = 12 * 60 * 60 * 1000"
| "getTimeframeMs D1 = 24 * 60 * 60 * 1000"
| "getTimeframeMs W1 = 7 * 24 * 60 * 60 * 1000"
| "getTimeframeMs Mo1 = 30 * 24 * 60 * 60 * 1000"

text \<open>
  The connector's mutable fields. Every call of the callback \<open>onCandleUpdate\<close> is
  recorded, in order, in \<open>emitted\<close>: \<open>Closed c\<close> for the call that finalizes the previous
  candle at a rollover, \<open>Updated c\<close> for the copy \<open>{ ...currentCandle }\<close> sent after a trade.
  The log holds each candle as it was at the time of the call.
\<close>

datatype CandleEvent = Closed OrderFlowCandle | Updated OrderFlowCandle

record BybitConnector =
  currentCandle :: "OrderFlowCandle option"
  timeframe :: Timeframe
  candleStartTime :: int
  emitted :: "CandleEvent list"

text \<open>\<open>x || 0\<close> on an optional number.\<close>

fun orZero :: "rat option \<Rightarrow> rat" where
  "orZero None = 0"
| "orZero (Some x) = x"

text \<open>
  \<open>subscribeRealtime\<close>: the fields it assigns. \<open>now\<close> is \<open>Date.now()\<close>; the socket is
  outside the model. A reconnect calls it again with the current candle.
\<close>

definition subscribeRealtime ::
  "BybitConnector \<Rightarrow> Timeframe \<Rightarrow> int \<Rightarrow> OrderFlowCandle option \<Rightarrow> BybitConnector" where
  "subscribeRealtime s tf now lastCandle =
     s\<lparr>timeframe := tf,
       currentCandle := lastCandle,
       candleStartTime := (now div getTimeframeMs tf) * getTimeframeMs tf\<rparr>"

text \<open>A connector as the constructor leaves it.\<close>

definition newConnector :: BybitConnector where
  "newConnector = \<lparr>currentCandle = None, timeframe = M15, candleStartTime = 0, emitted = []\<rparr>"

text \<open>\<open>updateBidAskData\<close>: find the level with this price, or push a new one at the end.\<close>

definition addVolume :: "string \<Rightarrow> rat \<Rightarrow> BidAskLevel \<Rightarrow> BidAskLevel" where
  "addVolume side vol l =
     (if side = ''Buy'' then l\<lparr>bidVol := bidVol l + vol\<rparr> else l\<lparr>askVol := askVol l + vol\<rparr>)"

text \<open>The in-place update of the first element that \<open>Array.find\<close> returns.\<close>

fun updateFirst :: "('a \<Rightarrow> bool) \<Rightarrow> ('a \<Rightarrow> 'a) \<Rightarrow> 'a list \<Rightarrow> 'a list" where
  "updateFirst P f [] = []"
| "updateFirst P f (x # xs) = (if P x then f x # xs else x # updateFirst P f xs)"

definition updateLevels :: "BidAskLevel list \<Rightarrow> rat \<Rightarrow> rat \<Rightarrow> string \<Rightarrow> BidAskLevel list" where
  "updateLevels levels pr vol side =
     (case find (\<lambda>l. price l = pr) levels of
        None \<Rightarrow> levels @ [addVolume side vol \<lparr>price = pr, bidVol = 0, askVol = 0\<rparr>]
      | Some existingLevel \<Rightarrow> updateFirst (\<lambda>l. price l = pr) (addVolume side vol) levels)"

definition updateBidAskData :: "BybitConnector \<Rightarrow> rat \<Rightarrow> rat \<Rightarrow> string \<Rightarrow> BybitConnector" where
  "updateBidAskData s pr vol side =
     (case currentCandle s of
        None \<Rightarrow> s
      | Some c \<Rightarrow>
          s\<lparr>currentCandle := Some (c\<lparr>bidAskData := updateLevels (bidAskData c) pr vol side\<rparr>)\<rparr>)"

text \<open>\<open>recalculateMetrics\<close>: the two \<open>reduce\<close> folds over the levels, then the rounding.\<close>

definition recalculateMetrics :: "BybitConnector \<Rightarrow> BybitConnector" where
  "recalculateMetrics s =
     (case currentCandle s of
        None \<Rightarrow> s
      | Some c \<Rightarrow>
          (let delta' = foldl (\<lambda>sum level. sum + (bidVol level - askVol level)) 0 (bidAskData c);
               volume' = foldl (\<lambda>sum level. sum + bidVol level + askVol level) 0 (bidAskData c);
               previousCvd = orZero (cvd c) - delta c
           in s\<lparr>currentCandle := Some (c\<lparr>delta := of_int (js_round delta'),
                                          volume := of_int (js_round volume'),
                                          cvd := Some (of_int (js_round (previousCvd + delta')))\<rparr>)\<rparr>))"

text \<open>The body of the \<open>forEach\<close> in \<open>processTrades\<close>, in its two steps.\<close>

definition startNewCandle :: "BybitConnector \<Rightarrow> BybitTrade \<Rightarrow> int \<Rightarrow> BybitConnector" where
  "startNewCandle s trade currentCandleStart =
     s\<lparr>emitted := emitted s @ (case currentCandle s of None \<Rightarrow> [] | Some c \<Rightarrow> [Closed c]),
       candleStartTime := currentCandleStart,
       currentCandle := Some \<lparr>timestamp = currentCandleStart,
                               open' = trade_p trade, high = trade_p trade,
                               low = trade_p trade, close = trade_p trade,
                               bidAskData = [], delta = 0, volume = 0,
                               cvd = Some (orZero (case currentCandle s of None \<Rightarrow> None
                                                   | Some c \<Rightarrow> cvd c))\<rparr>\<rparr>"

definition applyTrade :: "BybitConnector \<Rightarrow> BybitTrade \<Rightarrow> BybitConnector" where
  "applyTrade s trade =
     (case currentCandle s of
        None \<Rightarrow> s
      | Some c \<Rightarrow>
          (let pr = trade_p trade;
               s1 = s\<lparr>currentCandle := Some (c\<lparr>high := max (high c) pr,
                                                low := min (low c) pr,
                                                close := pr\<rparr>)\<rparr>;
               roundedPrice = of_int (js_round (pr * 2)) / 2;
               s2 = updateBidAskData s1 roundedPrice (trade_v trade) (trade_S trade);
               s3 = recalculateMetrics s2
           in s3\<lparr>emitted := emitted s3 @ (case currentCandle s3 of None \<Rightarrow> []
                                           | Some c' \<Rightarrow> [Updated c'])\<rparr>))"

definition bucketStart :: "Timeframe \<Rightarrow> int \<Rightarrow> int" where
  "bucketStart tf tradeTime = (tradeTime div getTimeframeMs tf) * getTimeframeMs tf"

definition processTrade :: "BybitConnector \<Rightarrow> BybitTrade \<Rightarrow> BybitConnector" where
  "processTrade s trade =
     (let currentCandleStart = bucketStart (timeframe s) (trade_T trade)
      in applyTrade
           (if currentCandleStart > candleStartTime s
            then startNewCandle s trade currentCandleStart
            else s)
           trade)"

definition processTrades :: "BybitConnector \<Rightarrow> BybitTrade list \<Rightarrow> BybitConnector" where
  "processTrades s trades = foldl processTrade s trades"

text \<open>
  The candles the aggregator has produced so far: those it finalized, in order, then the
  open one.
\<close>

fun closedOf :: "CandleEvent list \<Rightarrow> OrderFlowCandle list" where
  "closedOf [] = []"
| "closedOf (Closed c # es) = c # closedOf es"
| "closedOf (Updated c # es) = closedOf es"

definition candles :: "BybitConnector \<Rightarrow> OrderFlowCandle list" where
  "candles s = closedOf (emitted s) @ (case currentCandle s of None \<Rightarrow> [] | Some c \<Rightarrow> [c])"

text \<open>
  Three abbreviations used in the statements below: the candle literal that
  \<open>startNewCandle\<close> builds, the \<open>cvd\<close> it carries forward, and the net effect of
  \<open>applyTrade\<close> on the open candle (lemma \<open>applyTrade_Some\<close> proves that this is what
  the source's steps compute).
\<close>

definition freshCandle :: "int \<Rightarrow> rat \<Rightarrow> rat \<Rightarrow> OrderFlowCandle" where
  "freshCandle start pr seed =
     \<lparr>timestamp = start, open' = pr, high = pr, low = pr, close = pr,
      bidAskData = [], delta = 0, volume = 0, cvd = Some seed\<rparr>"

definition seedOf :: "BybitConnector \<Rightarrow> rat" where
  "seedOf s = (case currentCandle s of None \<Rightarrow> 0 | Some c \<Rightarrow> orZero (cvd c))"

definition tradeInto :: "OrderFlowCandle \<Rightarrow> BybitTrade \<Rightarrow> OrderFlowCandle" where
  "tradeInto c trade =
     (let levels = updateLevels (bidAskData c) (of_int (js_round (trade_p trade * 2)) / 2)
                     (trade_v trade) (trade_S trade);
          d = (\<Sum>l\<leftarrow>levels. bidVol l - askVol l)
      in c\<lparr>high := max (high c) (trade_p trade),
           low := min (low c) (trade_p trade),
           close := trade_p trade,
           bidAskData := levels,
           delta := of_int (js_round d),
           volume := of_int (js_round (\<Sum>l\<leftarrow>levels. bidVol l + askVol l)),
           cvd := Some (of_int (js_round (orZero (cvd c) - delta c + d)))\<rparr>)"

section \<open>Historical backfill (\<open>fetchHistoricalData\<close>, \<open>generateApproximateBidAsk\<close>)\<close>














section \<open>The mock generator (\<open>MockDataGenerator\<close>)\<close>






section \<open>The footprint overlay (\<open>updateOverlay\<close>)\<close>

text \<open>\<open>Array.slice(i, j)\<close> for \<open>0 \<le> i \<le> j\<close>.\<close>

definition slice :: "'a list \<Rightarrow> nat \<Rightarrow> nat \<Rightarrow> 'a list" where
  "slice xs i j = take (j - i) (drop i xs)"

text \<open>
  One pass of the bucketing loop's body on a non-empty \<open>bucket\<close>, where
  \<open>bucket[middleIndex]\<close> is in range.
\<close>

definition aggregateBucket :: "BidAskLevel list \<Rightarrow> BidAskLevel" where
  "aggregateBucket bucket =
     (let aggregatedBidVol = foldl (\<lambda>sum level. sum + bidVol level) 0 bucket;
          aggregatedAskVol = foldl (\<lambda>sum level. sum + askVol level) 0 bucket;
          middleIndex = length bucket div 2;
          representativePrice = price (bucket ! middleIndex)
      in \<lparr>price = representativePrice, bidVol = aggregatedBidVol, askVol = aggregatedAskVol\<rparr>)"

text \<open>
  \<open>for (let i = 0; i < sortedLevels.length; i += bucketSize)\<close>. The source enters the
  loop only with \<open>bucketSize \<ge> 1\<close>; the test \<open>0 < bucketSize\<close> is there to make the function
  total.
\<close>

function bucketLoop :: "BidAskLevel list \<Rightarrow> nat \<Rightarrow> nat \<Rightarrow> BidAskLevel list" where
  "bucketLoop sortedLevels bucketSize i =
     (if i < length sortedLevels \<and> 0 < bucketSize
      then aggregateBucket (slice sortedLevels i (i + bucketSize))
           # bucketLoop sortedLevels bucketSize (i + bucketSize)
      else [])"
  by pat_completeness auto
termination
  by (relation "measure (\<lambda>(sortedLevels, bucketSize, i). length sortedLevels - i)") auto

text \<open>The rows to draw for one candle, from its sorted levels and the row budget.\<close>

definition levelsToShow :: "BidAskLevel list \<Rightarrow> int \<Rightarrow> BidAskLevel list" where
  "levelsToShow sortedLevels maxLevels =
     (if int (length sortedLevels) > maxLevels \<and> maxLevels > 0
      then bucketLoop sortedLevels
             (nat \<lceil>(of_nat (length sortedLevels) :: rat) / of_int maxLevels\<rceil>) 0
      else sortedLevels)"

text \<open>
  The rows drawn for one visible candle (the body of \<open>visibleCandles.forEach\<close>), each with
  its \<open>y\<close> and its imbalance class. \<open>x\<close> is \<open>timeToCoordinate(time)\<close>; the coordinate
  functions return \<open>null\<close> as \<open>None\<close>, and \<open>!v\<close> also rejects the coordinate 0.
\<close>

record FootprintRow =
  row_y :: rat
  row_level :: BidAskLevel
  row_imbalance :: "imbalance option"

definition falsy :: "rat option \<Rightarrow> bool" where
  "falsy v = (case v of None \<Rightarrow> True | Some y \<Rightarrow> y = 0)"

definition sortedLevelsOf :: "OrderFlowCandle \<Rightarrow> BidAskLevel list" where
  "sortedLevelsOf candle =
     sort_key (\<lambda>l. - price l)
       (filter (\<lambda>level. price level \<ge> low candle \<and> price level \<le> high candle) (bidAskData candle))"

definition drawCandle ::
  "(rat \<Rightarrow> rat option) \<Rightarrow> rat option \<Rightarrow> rat \<Rightarrow> OrderFlowCandle \<Rightarrow> FootprintRow list" where
  "drawCandle priceToCoordinate x candleWidth candle =
     (if falsy x then []
      else if falsy (priceToCoordinate (high candle)) \<or> falsy (priceToCoordinate (low candle))
      then []
      else (let candleTop = the (priceToCoordinate (high candle));
                candleBottom = the (priceToCoordinate (low candle));
                fullCandleHeight = \<bar>candleBottom - candleTop\<bar>
            in if candleWidth < 15 then []
               else if bidAskData candle = [] then []
               else (let fontSize = min (max (candleWidth * (15 / 100)) 7) 14;
                         rowHeight = max (fontSize + 4) 10;
                         sortedLevels = sortedLevelsOf candle;
                         maxLevels = \<lfloor>fullCandleHeight / rowHeight\<rfloor>
                     in concat (map (\<lambda>level.
                          (let y = priceToCoordinate (price level)
                           in if falsy y then []
                              else if the y < candleTop - 5 \<or> the y > candleBottom + 5 then []
                              else [\<lparr>row_y = the y, row_level = level,
                                     row_imbalance = isImbalance (bidVol level) (askVol level)\<rparr>]))
                          (levelsToShow sortedLevels maxLevels)))))"

section \<open>The bucketer in the words of the specification\<close>

text \<open>The contiguous groups of \<open>k\<close> elements of a list, in order; the last may be shorter.\<close>

function groupsOf :: "nat \<Rightarrow> 'a list \<Rightarrow> 'a list list" where
  "groupsOf k xs = (if k = 0 \<or> xs = [] then [] else take k xs # groupsOf k (drop k xs))"
  by pat_completeness auto
termination
  by (relation "measure (\<lambda>(k, xs). length xs)") auto

text \<open>
  The render bucket of a group: the sums of its volumes and the price of its element at
  index \<open>floor(groupSize / 2)\<close>.
\<close>

definition renderBucket :: "BidAskLevel list \<Rightarrow> BidAskLevel" where
  "renderBucket g =
     \<lparr>price = price (g ! (length g div 2)),
      bidVol = (\<Sum>l\<leftarrow>g. bidVol l),
      askVol = (\<Sum>l\<leftarrow>g. askVol l)\<rparr>"

text \<open>
  The two rules of the specification, read for every \<open>maxRows\<close>: verbatim when
  \<open>N \<le> maxRows\<close>, else groups of \<open>ceil(N / maxRows)\<close>. For \<open>maxRows = 0\<close> the quotient is
  \<open>+Infinity\<close> in the program's arithmetic, which puts all levels into one group; a
  negative \<open>maxRows\<close> gives a bucket size below 1 and no group.
\<close>

definition bucket_spec :: "BidAskLevel list \<Rightarrow> int \<Rightarrow> BidAskLevel list" where
  "bucket_spec levels maxRows =
     (if int (length levels) \<le> maxRows then levels
      else if maxRows = 0 then [renderBucket levels]
      else map renderBucket
             (groupsOf (nat \<lceil>(of_nat (length levels) :: rat) / of_int maxRows\<rceil>) levels))"

section \<open>CVD continuity, as a predicate on a candle sequence\<close>






text \<open>The open candle, if any, has no price key twice.\<close>

definition uniqueKeys :: "BybitConnector \<Rightarrow> bool" where
  "uniqueKeys s \<longleftrightarrow> (\<forall>c. currentCandle s = Some c \<longrightarrow> distinct (map price (bidAskData c)))"

section \<open>Concrete inputs used in the witnesses and counterexamples\<close>

definition fractionalTrade :: BybitTrade where
  "fractionalTrade = \<lparr>trade_T = 900000, trade_S = ''Buy'', trade_v = 1 / 2, trade_p = 100\<rparr>"

definition openAt900000 :: BybitConnector where
  "openAt900000 = processTrades newConnector
     [\<lparr>trade_T = 900000, trade_S = ''Buy'', trade_v = 2, trade_p = 100\<rparr>]"

definition lateTrade :: BybitTrade where
  "lateTrade = \<lparr>trade_T = 5, trade_S = ''Sell'', trade_v = 3, trade_p = 50\<rparr>"

definition rolloverTrade1 :: BybitTrade where
  "rolloverTrade1 = \<lparr>trade_T = 900000, trade_S = ''Buy'', trade_v = 2, trade_p = 100\<rparr>"

definition rolloverTrade2 :: BybitTrade where
  "rolloverTrade2 = \<lparr>trade_T = 900001, trade_S = ''Sell'', trade_v = 1, trade_p = 101\<rparr>"

definition rolloverTrade3 :: BybitTrade where
  "rolloverTrade3 = \<lparr>trade_T = 1800000, trade_S = ''Buy'', trade_v = 4, trade_p = 102\<rparr>"

definition subscribedAt900500 :: BybitConnector where
  "subscribedAt900500 = subscribeRealtime newConnector M15 900500 None"

definition unorderedTrades :: "BybitTrade list" where
  "unorderedTrades =
     [\<lparr>trade_T = 900000, trade_S = ''Buy'', trade_v = 1, trade_p = 100\<rparr>,
      \<lparr>trade_T = 900001, trade_S = ''Sell'', trade_v = 1, trade_p = 99\<rparr>,
      \<lparr>trade_T = 900002, trade_S = ''Buy'', trade_v = 1, trade_p = 101\<rparr>,
      \<lparr>trade_T = 900003, trade_S = ''Buy'', trade_v = 1, trade_p = 99\<rparr>]"



definition fiveLevels :: "BidAskLevel list" where
  "fiveLevels =
     [\<lparr>price = 5, bidVol = 1, askVol = 2\<rparr>, \<lparr>price = 4, bidVol = 3, askVol = 4\<rparr>,
      \<lparr>price = 3, bidVol = 5, askVol = 6\<rparr>, \<lparr>price = 2, bidVol = 7, askVol = 8\<rparr>,
      \<lparr>price = 1, bidVol = 9, askVol = 10\<rparr>]"

definition twoLevels :: "BidAskLevel list" where
  "twoLevels = [\<lparr>price = 5, bidVol = 1, askVol = 2\<rparr>, \<lparr>price = 4, bidVol = 3, askVol = 4\<rparr>]"

definition flatCandle :: OrderFlowCandle where
  "flatCandle =
     \<lparr>timestamp = 900000, open' = 100, high = 100, low = 100, close = 100,
      bidAskData = [\<lparr>price = 100, bidVol = 2, askVol = 0\<rparr>],
      delta = 2, volume = 2, cvd = Some 2\<rparr>"

definition flatCoordinate :: "rat \<Rightarrow> rat option" where
  "flatCoordinate p = Some 50"



section \<open>Lemmas: sums and rounding\<close>

lemma foldl_add_sum_list:
  "foldl (\<lambda>sum level. sum + f level) a xs = (a::rat) + sum_list (map f xs)"
  by (induction xs arbitrary: a) (simp_all add: add.assoc)

lemma foldl_volume_sum_list:
  "foldl (\<lambda>sum level. sum + bidVol level + askVol level) 0 xs
     = (\<Sum>l\<leftarrow>xs. bidVol l + askVol l)"
  using foldl_add_sum_list [of "\<lambda>l. bidVol l + askVol l" 0 xs] by (simp add: add.assoc)

lemma foldl_delta_sum_list:
  "foldl (\<lambda>sum level. sum + (bidVol level - askVol level)) 0 xs
     = (\<Sum>l\<leftarrow>xs. bidVol l - askVol l)"
  using foldl_add_sum_list [of "\<lambda>l. bidVol l - askVol l" 0 xs] by simp

lemma js_round_of_int [simp]: "js_round (of_int n) = n"
  by (simp add: js_round_def) linarith


lemma js_round_Ints: "x \<in> \<int> \<Longrightarrow> of_int (js_round x) = x"
  by (auto elim!: Ints_cases)

lemma currentCandle_recalculateMetrics:
  "currentCandle (recalculateMetrics s) =
     map_option (\<lambda>c. c\<lparr>delta := of_int (js_round (\<Sum>l\<leftarrow>bidAskData c. bidVol l - askVol l)),
                        volume := of_int (js_round (\<Sum>l\<leftarrow>bidAskData c. bidVol l + askVol l)),
                        cvd := Some (of_int (js_round (orZero (cvd c) - delta c
                                 + (\<Sum>l\<leftarrow>bidAskData c. bidVol l - askVol l))))\<rparr>)
       (currentCandle s)"
  by (simp add: recalculateMetrics_def foldl_volume_sum_list foldl_delta_sum_list Let_def
      split: option.splits)

lemma sum_list_Ints: "(\<And>x. x \<in> set xs \<Longrightarrow> f x \<in> \<int>) \<Longrightarrow> (\<Sum>x\<leftarrow>xs. f x) \<in> (\<int> :: rat set)"
  by (induction xs) auto

section \<open>Lemmas: one step of the aggregator\<close>

lemma applyTrade_None: "currentCandle s = None \<Longrightarrow> applyTrade s trade = s"
  by (simp add: applyTrade_def)

lemma applyTrade_Some:
  "currentCandle s = Some c \<Longrightarrow>
   applyTrade s trade = s\<lparr>currentCandle := Some (tradeInto c trade),
                          emitted := emitted s @ [Updated (tradeInto c trade)]\<rparr>"
  by (simp add: applyTrade_def Let_def updateBidAskData_def recalculateMetrics_def
      foldl_volume_sum_list foldl_delta_sum_list tradeInto_def)

lemma closedOf_append [simp]: "closedOf (xs @ ys) = closedOf xs @ closedOf ys"
  by (induction xs rule: closedOf.induct) simp_all

lemma processTrade_late:
  "\<not> bucketStart (timeframe s) (trade_T trade) > candleStartTime s \<Longrightarrow>
   processTrade s trade = applyTrade s trade"
  by (simp add: processTrade_def)

lemma processTrade_rollover:
  "bucketStart (timeframe s) (trade_T trade) > candleStartTime s \<Longrightarrow>
   processTrade s trade =
     applyTrade (startNewCandle s trade (bucketStart (timeframe s) (trade_T trade))) trade"
  by (simp add: processTrade_def)

lemma startNewCandle_eq:
  "startNewCandle s trade b =
     s\<lparr>emitted := emitted s @ (case currentCandle s of None \<Rightarrow> [] | Some c \<Rightarrow> [Closed c]),
       candleStartTime := b,
       currentCandle := Some (freshCandle b (trade_p trade)
          (case currentCandle s of None \<Rightarrow> 0 | Some c \<Rightarrow> orZero (cvd c)))\<rparr>"
  by (simp add: startNewCandle_def freshCandle_def split: option.splits)

lemma processTrade_cases:
  "processTrade s trade =
    (if bucketStart (timeframe s) (trade_T trade) > candleStartTime s
     then (let b = bucketStart (timeframe s) (trade_T trade);
               n = tradeInto (freshCandle b (trade_p trade)
                     (case currentCandle s of None \<Rightarrow> 0 | Some c \<Rightarrow> orZero (cvd c))) trade
           in s\<lparr>emitted := emitted s @ (case currentCandle s of None \<Rightarrow> [] | Some c \<Rightarrow> [Closed c])
                              @ [Updated n],
                candleStartTime := b,
                currentCandle := Some n\<rparr>)
     else (case currentCandle s of
             None \<Rightarrow> s
           | Some c \<Rightarrow> s\<lparr>currentCandle := Some (tradeInto c trade),
                          emitted := emitted s @ [Updated (tradeInto c trade)]\<rparr>))"
  by (simp add: processTrade_def startNewCandle_eq applyTrade_Some applyTrade_None Let_def
      split: option.splits)

lemma currentCandle_processTrade:
  "currentCandle (processTrade s trade) = Some c' \<Longrightarrow> \<exists>c. c' = tradeInto c trade"
  by (auto simp: processTrade_cases Let_def split: if_splits option.splits)

lemma tradeInto_metrics:
  "volume (tradeInto c trade) = of_int (js_round (\<Sum>l\<leftarrow>bidAskData (tradeInto c trade). bidVol l + askVol l))"
  "delta (tradeInto c trade) = of_int (js_round (\<Sum>l\<leftarrow>bidAskData (tradeInto c trade). bidVol l - askVol l))"
  by (simp_all add: tradeInto_def Let_def)

lemma processTrades_snoc:
  "processTrades s (trades @ [trade]) = processTrade (processTrades s trades) trade"
  by (simp add: processTrades_def)

lemma timeframe_processTrade [simp]: "timeframe (processTrade s trade) = timeframe s"
  by (simp add: processTrade_cases Let_def split: option.splits)

lemma candleStartTime_processTrade:
  "candleStartTime (processTrade s trade) =
     max (candleStartTime s) (bucketStart (timeframe s) (trade_T trade))"
  by (simp add: processTrade_cases Let_def split: option.splits)

lemma candles_rollover:
  assumes "candleStartTime s < bucketStart (timeframe s) (trade_T trade)"
  shows "candles (processTrade s trade) =
           candles s @ [tradeInto (freshCandle (bucketStart (timeframe s) (trade_T trade))
                                    (trade_p trade) (seedOf s)) trade]"
    and "currentCandle (processTrade s trade) =
           Some (tradeInto (freshCandle (bucketStart (timeframe s) (trade_T trade))
                                    (trade_p trade) (seedOf s)) trade)"
    and "closedOf (emitted (processTrade s trade)) = candles s"
  using assms by (simp_all add: processTrade_cases candles_def seedOf_def Let_def split: option.splits)

lemma candles_merge:
  assumes "\<not> candleStartTime s < bucketStart (timeframe s) (trade_T trade)"
  shows "candles (processTrade s trade) =
           closedOf (emitted s) @ (case currentCandle s of None \<Rightarrow> []
                                   | Some c \<Rightarrow> [tradeInto c trade])"
    and "currentCandle (processTrade s trade) =
           map_option (\<lambda>c. tradeInto c trade) (currentCandle s)"
    and "closedOf (emitted (processTrade s trade)) = closedOf (emitted s)"
  using assms by (simp_all add: processTrade_cases candles_def Let_def split: option.splits)

lemma tradeInto_fresh:
  "timestamp (tradeInto (freshCandle b p seed) trade) = b"
  "open' (tradeInto (freshCandle b (trade_p trade) seed) trade) = trade_p trade"
  "high (tradeInto (freshCandle b (trade_p trade) seed) trade) = trade_p trade"
  "low (tradeInto (freshCandle b (trade_p trade) seed) trade) = trade_p trade"
  "close (tradeInto (freshCandle b (trade_p trade) seed) trade) = trade_p trade"
  by (simp_all add: tradeInto_def freshCandle_def Let_def)

lemma tradeInto_frame:
  "timestamp (tradeInto c trade) = timestamp c"
  "open' (tradeInto c trade) = open' c"
  by (simp_all add: tradeInto_def Let_def)

lemma getTimeframeMs_gt_1: "1 < getTimeframeMs tf"
  by (cases tf) simp_all

lemma bucketStart_next:
  "bucketStart tf (t + getTimeframeMs tf) = bucketStart tf t + getTimeframeMs tf"
proof -
  have "getTimeframeMs tf \<noteq> 0" using getTimeframeMs_gt_1 [of tf] by simp
  then have "(t + getTimeframeMs tf) div getTimeframeMs tf = t div getTimeframeMs tf + 1"
    by simp
  then show ?thesis by (simp add: bucketStart_def algebra_simps)
qed

lemma bucketStart_succ:
  "bucketStart tf (t + 1) = bucketStart tf t
   \<or> bucketStart tf (t + 1) = bucketStart tf t + getTimeframeMs tf"
proof -
  let ?m = "getTimeframeMs tf"
  have m: "1 < ?m" by (rule getTimeframeMs_gt_1)
  have "t div ?m \<le> (t + 1) div ?m" using m by (simp add: zdiv_mono1)
  moreover have "(t + 1) div ?m \<le> (t + ?m) div ?m"
    by (rule zdiv_mono1) (use m in simp_all)
  moreover have "(t + ?m) div ?m = t div ?m + 1" using m by simp
  ultimately have "(t + 1) div ?m = t div ?m \<or> (t + 1) div ?m = t div ?m + 1" by linarith
  then show ?thesis by (auto simp: bucketStart_def algebra_simps)
qed

lemma freshCandle_sel:
  "timestamp (freshCandle b p seed) = b" "open' (freshCandle b p seed) = p"
  by (simp_all add: freshCandle_def)

lemma three_trades:
  assumes none: "currentCandle s = None"
    and fresh: "candleStartTime s < bucketStart (timeframe s) (trade_T tr1)"
    and t2: "trade_T tr2 = trade_T tr1 + 1"
    and t3: "trade_T tr3 = trade_T tr1 + getTimeframeMs (timeframe s)"
  shows "length (candles (processTrades s [tr1, tr2, tr3])) = length (candles s) + 2
       \<and> map timestamp (candles (processTrades s [tr1, tr2, tr3])) =
           map timestamp (candles s) @
           [bucketStart (timeframe s) (trade_T tr1),
            bucketStart (timeframe s) (trade_T tr1) + getTimeframeMs (timeframe s)]
       \<and> length (closedOf (emitted (processTrades s [tr1, tr2, tr3]))) = length (candles s) + 1
       \<and> (\<exists>n. currentCandle (processTrades s [tr1, tr2, tr3]) = Some n
              \<and> open' n = (if bucketStart (timeframe s) (trade_T tr2)
                                = bucketStart (timeframe s) (trade_T tr1)
                            then trade_p tr3 else trade_p tr2)
              \<and> (bucketStart (timeframe s) (trade_T tr2) = bucketStart (timeframe s) (trade_T tr1)
                   \<longrightarrow> high n = trade_p tr3 \<and> low n = trade_p tr3 \<and> close n = trade_p tr3))"
proof -
  let ?tf = "timeframe s"
  let ?m = "getTimeframeMs ?tf"
  let ?b = "bucketStart ?tf (trade_T tr1)"
  let ?s1 = "processTrade s tr1"
  let ?s2 = "processTrade ?s1 tr2"
  let ?s3 = "processTrade ?s2 tr3"
  let ?n1 = "tradeInto (freshCandle ?b (trade_p tr1) (seedOf s)) tr1"
  have m: "1 < ?m" by (rule getTimeframeMs_gt_1)
  have run: "processTrades s [tr1, tr2, tr3] = ?s3" by (simp add: processTrades_def)
  have c1: "candles ?s1 = candles s @ [?n1]" "currentCandle ?s1 = Some ?n1"
    "closedOf (emitted ?s1) = candles s"
    using candles_rollover [OF fresh] by simp_all
  have st1: "candleStartTime ?s1 = ?b"
    using fresh by (simp add: candleStartTime_processTrade)
  have b3: "bucketStart ?tf (trade_T tr3) = ?b + ?m"
    unfolding t3 by (rule bucketStart_next)
  from bucketStart_succ [of ?tf "trade_T tr1"]
  consider (same) "bucketStart ?tf (trade_T tr2) = ?b"
    | (later) "bucketStart ?tf (trade_T tr2) = ?b + ?m" "bucketStart ?tf (trade_T tr2) \<noteq> ?b"
    unfolding t2 using m by fastforce
  then show ?thesis
  proof cases
    case same
    have no2: "\<not> candleStartTime ?s1 < bucketStart (timeframe ?s1) (trade_T tr2)"
      using same st1 by simp
    have c2: "currentCandle ?s2 = Some (tradeInto ?n1 tr2)" "closedOf (emitted ?s2) = candles s"
      "candles ?s2 = candles s @ [tradeInto ?n1 tr2]"
      using candles_merge [OF no2] c1 by simp_all
    have st2: "candleStartTime ?s2 = ?b"
      using same st1 by (simp add: candleStartTime_processTrade)
    have yes3: "candleStartTime ?s2 < bucketStart (timeframe ?s2) (trade_T tr3)"
      using b3 st2 m by simp
    let ?n3 = "tradeInto (freshCandle (?b + ?m) (trade_p tr3) (seedOf ?s2)) tr3"
    have c3: "candles ?s3 = candles s @ [tradeInto ?n1 tr2, ?n3]" "currentCandle ?s3 = Some ?n3"
      "closedOf (emitted ?s3) = candles s @ [tradeInto ?n1 tr2]"
      using candles_rollover [OF yes3] c2 b3 by simp_all
    show ?thesis
      unfolding run using c3 same by (simp add: tradeInto_fresh tradeInto_frame freshCandle_sel)
  next
    case later
    have yes2: "candleStartTime ?s1 < bucketStart (timeframe ?s1) (trade_T tr2)"
      using later st1 m by simp
    let ?n2 = "tradeInto (freshCandle (?b + ?m) (trade_p tr2) (seedOf ?s1)) tr2"
    have c2: "candles ?s2 = candles s @ [?n1, ?n2]" "currentCandle ?s2 = Some ?n2"
      "closedOf (emitted ?s2) = candles s @ [?n1]"
      using candles_rollover [OF yes2] c1 later by simp_all
    have st2: "candleStartTime ?s2 = ?b + ?m"
      using later st1 m by (simp add: candleStartTime_processTrade)
    have no3: "\<not> candleStartTime ?s2 < bucketStart (timeframe ?s2) (trade_T tr3)"
      using b3 st2 by simp
    have c3: "candles ?s3 = candles s @ [?n1, tradeInto ?n2 tr3]"
      "currentCandle ?s3 = Some (tradeInto ?n2 tr3)"
      "closedOf (emitted ?s3) = candles s @ [?n1]"
      using candles_merge [OF no3] c2 by simp_all
    show ?thesis
      unfolding run using c3 later by (simp add: tradeInto_fresh tradeInto_frame freshCandle_sel)
  qed
qed

text \<open>
  For a candle the aggregator created itself, \<open>candleStartTime\<close> is the open candle's
  timestamp (its open time); a resumed last candle need not satisfy this.
\<close>

lemma openTime_is_candleStartTime:
  assumes "\<forall>c. currentCandle s = Some c \<longrightarrow> timestamp c = candleStartTime s"
    and "currentCandle (processTrade s trade) = Some c'"
  shows "timestamp c' = candleStartTime (processTrade s trade)"
proof (cases "candleStartTime s < bucketStart (timeframe s) (trade_T trade)")
  case True
  from candles_rollover(2) [OF True] assms(2) True show ?thesis
    by (simp add: candleStartTime_processTrade tradeInto_frame freshCandle_sel)
next
  case False
  from candles_merge(2) [OF False] assms(2)
  obtain c where c: "currentCandle s = Some c" "c' = tradeInto c trade" by (cases "currentCandle s") auto
  then have "timestamp c' = candleStartTime s" using assms(1) by (simp add: tradeInto_frame)
  then show ?thesis using False by (simp add: candleStartTime_processTrade)
qed

section \<open>Lemmas: the synthesized levels of the backfill\<close>





section \<open>Lemmas: CVD continuity\<close>











section \<open>Lemmas: the price keys of the open candle\<close>

lemma price_addVolume [simp]: "price (addVolume side vol l) = price l"
  by (simp add: addVolume_def)

lemma map_price_updateFirst:
  "map price (updateFirst (\<lambda>l. price l = k) (addVolume side vol) levels) = map price levels"
  by (induction levels) simp_all

lemma map_price_updateLevels:
  "map price (updateLevels levels k vol side) =
     (if k \<in> set (map price levels) then map price levels else map price levels @ [k])"
proof (cases "find (\<lambda>l. price l = k) levels")
  case None
  then have "k \<notin> set (map price levels)" by (auto simp: find_None_iff)
  with None show ?thesis by (simp add: updateLevels_def)
next
  case (Some l)
  then have "k \<in> set (map price levels)" by (auto simp: find_Some_iff)
  with Some show ?thesis by (simp add: updateLevels_def map_price_updateFirst)
qed

lemma distinct_updateLevels:
  "distinct (map price levels) \<Longrightarrow> distinct (map price (updateLevels levels k vol side))"
  by (simp add: map_price_updateLevels)

lemma bidAskData_tradeInto:
  "bidAskData (tradeInto c trade) =
     updateLevels (bidAskData c) (of_int (js_round (trade_p trade * 2)) / 2)
       (trade_v trade) (trade_S trade)"
  by (simp add: tradeInto_def Let_def)

lemma uniqueKeys_processTrade:
  assumes "uniqueKeys s"
  shows "uniqueKeys (processTrade s trade)"
proof (cases "candleStartTime s < bucketStart (timeframe s) (trade_T trade)")
  case True
  show ?thesis
    unfolding uniqueKeys_def candles_rollover(2) [OF True]
    by (simp add: bidAskData_tradeInto distinct_updateLevels freshCandle_def)
next
  case False
  show ?thesis
    unfolding uniqueKeys_def candles_merge(2) [OF False]
    using assms by (auto simp: uniqueKeys_def bidAskData_tradeInto distinct_updateLevels)
qed

lemma uniqueKeys_processTrades:
  "uniqueKeys s \<Longrightarrow> uniqueKeys (processTrades s trades)"
  unfolding processTrades_def
  by (induction trades arbitrary: s) (simp_all add: uniqueKeys_processTrade)

lemma uniqueKeys_no_candle: "currentCandle s = None \<Longrightarrow> uniqueKeys s"
  by (simp add: uniqueKeys_def)









section \<open>Lemmas: the bucketing loop\<close>

declare bucketLoop.simps [simp del] groupsOf.simps [simp del]

lemma aggregateBucket_renderBucket: "aggregateBucket bucket = renderBucket bucket"
  using foldl_add_sum_list [of bidVol 0 bucket] foldl_add_sum_list [of askVol 0 bucket]
  by (simp add: aggregateBucket_def renderBucket_def Let_def)

lemma groupsOf_Nil [simp]: "groupsOf k [] = []"
  by (simp add: groupsOf.simps)

lemma bucketLoop_groupsOf:
  "0 < k \<Longrightarrow> bucketLoop xs k i = map renderBucket (groupsOf k (drop i xs))"
proof (induction xs k i rule: bucketLoop.induct)
  case (1 xs k i)
  show ?case
  proof (cases "i < length xs")
    case True
    then have ne: "drop i xs \<noteq> []" by simp
    have "bucketLoop xs k i
            = aggregateBucket (slice xs i (i + k)) # bucketLoop xs k (i + k)"
      using True "1.prems" by (simp add: bucketLoop.simps [of xs k i])
    also have "bucketLoop xs k (i + k) = map renderBucket (groupsOf k (drop (i + k) xs))"
      using "1.IH" True "1.prems" by simp
    also have "drop (i + k) xs = drop k (drop i xs)" by (simp add: add.commute)
    finally show ?thesis
      using ne "1.prems"
      by (simp add: groupsOf.simps [of k "drop i xs"] slice_def aggregateBucket_renderBucket)
  next
    case False
    then show ?thesis by (simp add: bucketLoop.simps [of xs k i])
  qed
qed

lemma groupsOf_concat: "0 < k \<Longrightarrow> concat (groupsOf k xs) = xs"
proof (induction k xs rule: groupsOf.induct)
  case (1 k xs)
  then show ?case by (cases "xs = []") (simp_all add: groupsOf.simps [of k xs])
qed

lemma groupsOf_nonempty: "g \<in> set (groupsOf k xs) \<Longrightarrow> g \<noteq> [] \<and> length g \<le> k"
proof (induction k xs rule: groupsOf.induct)
  case (1 k xs)
  then show ?case
    by (cases "k = 0 \<or> xs = []") (auto simp: groupsOf.simps [of k xs])
qed

lemma groupsOf_length: "0 < k \<Longrightarrow> length (groupsOf k xs) = (length xs + k - 1) div k"
proof (induction k xs rule: groupsOf.induct)
  case (1 k xs)
  show ?case
  proof (cases "xs = []")
    case True
    then show ?thesis using "1.prems" by simp
  next
    case False
    then have l: "0 < length xs" by simp
    have "length (groupsOf k xs) = Suc ((length xs - k + k - 1) div k)"
      using "1.IH" "1.prems" False by (simp add: groupsOf.simps [of k xs])
    also have "\<dots> = (length xs + k - 1) div k"
    proof (cases "k \<le> length xs")
      case True
      have "length xs + k - 1 = (length xs - 1) + k" using l by linarith
      then have "(length xs + k - 1) div k = (length xs - 1) div k + 1"
        using "1.prems" by (simp only: div_add_self2) 
      moreover have "length xs - k + k - 1 = length xs - 1" using True by linarith
      ultimately show ?thesis by simp
    next
      case False
      then have a: "length xs - k + k - 1 = k - 1" by linarith
      have "length xs + k - 1 = (length xs - 1) + k" using l by linarith
      then have "(length xs + k - 1) div k = (length xs - 1) div k + 1"
        using "1.prems" by (simp only: div_add_self2)
      moreover have "(length xs - 1) div k = 0" using False l by simp
      moreover have "(k - 1) div k = 0" using "1.prems" by simp
      ultimately show ?thesis using a by simp
    qed
    finally show ?thesis .
  qed
qed

lemma sum_renderBucket_groupsOf:
  "0 < k \<Longrightarrow>
     (\<Sum>b\<leftarrow>map renderBucket (groupsOf k xs). bidVol b) = (\<Sum>l\<leftarrow>xs. bidVol l)
   \<and> (\<Sum>b\<leftarrow>map renderBucket (groupsOf k xs). askVol b) = (\<Sum>l\<leftarrow>xs. askVol l)"
proof (induction k xs rule: groupsOf.induct)
  case (1 k xs)
  show ?case
  proof (cases "xs = []")
    case True
    then show ?thesis by simp
  next
    case False
    have split: "(\<Sum>l\<leftarrow>xs. f l) = (\<Sum>l\<leftarrow>take k xs. f l) + (\<Sum>l\<leftarrow>drop k xs. f l)"
      for f :: "BidAskLevel \<Rightarrow> rat"
      by (metis append_take_drop_id map_append sum_list_append)
    from "1.IH" "1.prems" False
    show ?thesis
      by (simp add: groupsOf.simps [of k xs] renderBucket_def split [of bidVol] split [of askVol])
  qed
qed

lemma bucketSize_pos:
  assumes "0 < maxRows" "maxRows < int n"
  shows "0 < nat \<lceil>(of_nat n :: rat) / of_int maxRows\<rceil>"
proof -
  have "(0::rat) < of_nat n / of_int maxRows" using assms by simp
  then have "0 < \<lceil>(of_nat n :: rat) / of_int maxRows\<rceil>" by (simp add: less_ceiling_iff)
  then show ?thesis by simp
qed

lemma levelsToShow_verbatim:
  "int (length levels) \<le> maxRows \<or> maxRows \<le> 0 \<Longrightarrow> levelsToShow levels maxRows = levels"
  by (auto simp: levelsToShow_def)

lemma levelsToShow_grouped:
  assumes "0 < maxRows" "maxRows < int (length levels)"
  shows "levelsToShow levels maxRows =
           map renderBucket
             (groupsOf (nat \<lceil>(of_nat (length levels) :: rat) / of_int maxRows\<rceil>) levels)"
  using assms bucketLoop_groupsOf [OF bucketSize_pos [OF assms], of levels 0]
  by (simp add: levelsToShow_def)

lemma levelsToShow_conserves:
  "(\<Sum>b\<leftarrow>levelsToShow levels maxRows. bidVol b) = (\<Sum>l\<leftarrow>levels. bidVol l)
   \<and> (\<Sum>b\<leftarrow>levelsToShow levels maxRows. askVol b) = (\<Sum>l\<leftarrow>levels. askVol l)"
proof (cases "0 < maxRows \<and> maxRows < int (length levels)")
  case True
  then show ?thesis
    using levelsToShow_grouped [of maxRows levels]
      sum_renderBucket_groupsOf [OF bucketSize_pos, of maxRows "length levels" levels]
    by simp
next
  case False
  then have "levelsToShow levels maxRows = levels"
    by (intro levelsToShow_verbatim) auto
  then show ?thesis by simp
qed

section \<open>Lemmas: prices and volumes of the synthesized levels\<close>














section \<open>Claims\<close>

text \<open>
  C1 (as amended): after each trade of any sequence, the open candle's \<open>volume\<close> is
  \<open>Math.round\<close> of the sum over its levels of \<open>bidVol + askVol\<close> and its \<open>delta\<close> is
  \<open>Math.round\<close> of the sum of \<open>bidVol - askVol\<close>; both are recomputed from the levels by
  \<open>recalculateMetrics\<close>. They equal the sums themselves when every level volume is an
  integer.
\<close>

theorem metrics_recomputed_from_levels:
  assumes "currentCandle (processTrades s (trades @ [trade])) = Some c"
  shows "volume c = of_int (js_round (\<Sum>l\<leftarrow>bidAskData c. bidVol l + askVol l))
       \<and> delta c = of_int (js_round (\<Sum>l\<leftarrow>bidAskData c. bidVol l - askVol l))
       \<and> ((\<forall>l\<in>set (bidAskData c). bidVol l \<in> \<int> \<and> askVol l \<in> \<int>) \<longrightarrow>
            volume c = (\<Sum>l\<leftarrow>bidAskData c. bidVol l + askVol l)
          \<and> delta c = (\<Sum>l\<leftarrow>bidAskData c. bidVol l - askVol l))"
proof -
  from assms obtain c0 where c: "c = tradeInto c0 trade"
    unfolding processTrades_snoc by (blast dest: currentCandle_processTrade)
  have v: "volume c = of_int (js_round (\<Sum>l\<leftarrow>bidAskData c. bidVol l + askVol l))"
    and d: "delta c = of_int (js_round (\<Sum>l\<leftarrow>bidAskData c. bidVol l - askVol l))"
    unfolding c by (rule tradeInto_metrics)+
  have "volume c = (\<Sum>l\<leftarrow>bidAskData c. bidVol l + askVol l)
      \<and> delta c = (\<Sum>l\<leftarrow>bidAskData c. bidVol l - askVol l)"
    if "\<forall>l\<in>set (bidAskData c). bidVol l \<in> \<int> \<and> askVol l \<in> \<int>"
  proof -
    have "(\<Sum>l\<leftarrow>bidAskData c. bidVol l + askVol l) \<in> \<int>"
      "(\<Sum>l\<leftarrow>bidAskData c. bidVol l - askVol l) \<in> \<int>"
      using that by (auto intro!: sum_list_Ints)
    then show ?thesis using v d by (simp add: js_round_Ints)
  qed
  with v d show ?thesis by blast
qed

lemma fractional_run:
  "currentCandle (processTrades newConnector ([] @ [fractionalTrade])) =
     Some \<lparr>timestamp = 900000, open' = 100, high = 100, low = 100, close = 100,
           bidAskData = [\<lparr>price = 100, bidVol = 1 / 2, askVol = 0\<rparr>],
           delta = 1, volume = 1, cvd = Some 1\<rparr>"
  by code_simp

theorem metrics_recomputed_from_levels_witness:
  "volume \<lparr>timestamp = 900000, open' = 100, high = 100, low = 100, close = 100,
           bidAskData = [\<lparr>price = 100, bidVol = 1 / 2, askVol = 0\<rparr>],
           delta = 1, volume = 1, cvd = Some 1\<rparr> = of_int (js_round (1 / 2))"
  using metrics_recomputed_from_levels [OF fractional_run] by simp

text \<open>
  C1 as stated fails: one buy of volume \<open>0.5\<close> leaves a level sum of \<open>0.5\<close> and a candle
  volume of \<open>Math.round(0.5) = 1\<close>.
\<close>

theorem volume_differs_from_level_sum:
  "map_option volume (currentCandle (processTrades newConnector [fractionalTrade])) = Some 1
   \<and> map_option (\<lambda>c. \<Sum>l\<leftarrow>bidAskData c. bidVol l + askVol l)
        (currentCandle (processTrades newConnector [fractionalTrade])) = Some (1 / 2)"
  using fractional_run by simp



text \<open>
  C3 (as amended): a trade whose bucket is earlier than \<open>candleStartTime\<close> closes no
  candle, creates none and leaves \<open>candleStartTime\<close> and the finalized candles as they
  are. It is a no-op only when there is no open candle; otherwise it is accumulated into
  the open candle like any other trade (high, low, close and the levels change, and the
  update is emitted), the candle keeping its timestamp and open.
\<close>

theorem late_trade_is_merged:
  assumes "bucketStart (timeframe s) (trade_T trade) < candleStartTime s"
  shows "candleStartTime (processTrade s trade) = candleStartTime s
       \<and> closedOf (emitted (processTrade s trade)) = closedOf (emitted s)
       \<and> (currentCandle s = None \<longrightarrow> processTrade s trade = s)
       \<and> (\<forall>c. currentCandle s = Some c \<longrightarrow>
             processTrade s trade = s\<lparr>currentCandle := Some (tradeInto c trade),
                                      emitted := emitted s @ [Updated (tradeInto c trade)]\<rparr>
           \<and> timestamp (tradeInto c trade) = timestamp c
           \<and> open' (tradeInto c trade) = open' c
           \<and> high (tradeInto c trade) = max (high c) (trade_p trade)
           \<and> low (tradeInto c trade) = min (low c) (trade_p trade)
           \<and> close (tradeInto c trade) = trade_p trade
           \<and> bidAskData (tradeInto c trade) =
                updateLevels (bidAskData c) (of_int (js_round (trade_p trade * 2)) / 2)
                  (trade_v trade) (trade_S trade))"
  using assms by (auto simp: processTrade_cases tradeInto_def Let_def split: option.splits)

lemma openAt900000_eq:
  "openAt900000 =
     \<lparr>currentCandle = Some \<lparr>timestamp = 900000, open' = 100, high = 100, low = 100, close = 100,
           bidAskData = [\<lparr>price = 100, bidVol = 2, askVol = 0\<rparr>],
           delta = 2, volume = 2, cvd = Some 2\<rparr>,
      timeframe = M15, candleStartTime = 900000,
      emitted = [Updated \<lparr>timestamp = 900000, open' = 100, high = 100, low = 100, close = 100,
           bidAskData = [\<lparr>price = 100, bidVol = 2, askVol = 0\<rparr>],
           delta = 2, volume = 2, cvd = Some 2\<rparr>]\<rparr>"
  by code_simp

lemma lateTrade_is_late:
  "bucketStart (timeframe openAt900000) (trade_T lateTrade) < candleStartTime openAt900000"
  by code_simp

theorem late_trade_is_merged_witness:
  "bucketStart (timeframe openAt900000) (trade_T lateTrade) < candleStartTime openAt900000
   \<and> candleStartTime (processTrade openAt900000 lateTrade) = candleStartTime openAt900000
   \<and> closedOf (emitted (processTrade openAt900000 lateTrade)) = closedOf (emitted openAt900000)"
  using late_trade_is_merged [OF lateTrade_is_late] lateTrade_is_late by blast

text \<open>
  C3 as stated fails: with a candle open at 900000 (15m), a trade stamped 5 (bucket 0)
  moves low and close to 50 and adds a level.
\<close>

theorem late_trade_not_dropped:
  "bucketStart (timeframe openAt900000) (trade_T lateTrade) = 0
   \<and> map_option timestamp (currentCandle openAt900000) = Some 900000
   \<and> currentCandle (processTrade openAt900000 lateTrade) =
       Some \<lparr>timestamp = 900000, open' = 100, high = 100, low = 50, close = 50,
             bidAskData = [\<lparr>price = 100, bidVol = 2, askVol = 0\<rparr>,
                           \<lparr>price = 50, bidVol = 0, askVol = 3\<rparr>],
             delta = -1, volume = 5, cvd = Some (-1)\<rparr>
   \<and> processTrade openAt900000 lateTrade \<noteq> openAt900000"
  by code_simp

text \<open>
  C4 (as amended): the rollover test compares the trade's bucket with \<open>candleStartTime\<close>
  (set by \<open>subscribeRealtime\<close> to the bucket of the subscription time, then to the bucket
  of every new candle), not with the open candle. When the bucket exceeds it, the open
  candle (if any) is emitted as closed and a new candle is created with
  \<open>open = high = low = close = trade.price\<close>, empty levels and the previous \<open>cvd\<close>, into
  which the trade is then applied. Starting with no candle and a \<open>candleStartTime\<close> before
  the bucket of \<open>t\<close>, trades at \<open>t\<close>, \<open>t + 1\<close>, \<open>t + intervalMs\<close> produce exactly two
  candles, one closed and one open, the open one seeded from the first trade of the later
  bucket (the third trade whenever \<open>t\<close> and \<open>t + 1\<close> share a bucket).
\<close>

theorem rollover_on_candleStartTime:
  "(candleStartTime s < bucketStart (timeframe s) (trade_T trade) \<longrightarrow>
      processTrade s trade =
        applyTrade (startNewCandle s trade (bucketStart (timeframe s) (trade_T trade))) trade
    \<and> currentCandle (startNewCandle s trade (bucketStart (timeframe s) (trade_T trade))) =
        Some \<lparr>timestamp = bucketStart (timeframe s) (trade_T trade),
              open' = trade_p trade, high = trade_p trade,
              low = trade_p trade, close = trade_p trade,
              bidAskData = [], delta = 0, volume = 0,
              cvd = Some (case currentCandle s of None \<Rightarrow> 0 | Some c \<Rightarrow> orZero (cvd c))\<rparr>
    \<and> emitted (startNewCandle s trade (bucketStart (timeframe s) (trade_T trade))) =
        emitted s @ (case currentCandle s of None \<Rightarrow> [] | Some c \<Rightarrow> [Closed c])
    \<and> candles (processTrade s trade) =
        candles s @ [tradeInto (freshCandle (bucketStart (timeframe s) (trade_T trade))
                                  (trade_p trade) (seedOf s)) trade])
   \<and> (currentCandle s = None
        \<and> candleStartTime s < bucketStart (timeframe s) (trade_T tr1)
        \<and> trade_T tr2 = trade_T tr1 + 1
        \<and> trade_T tr3 = trade_T tr1 + getTimeframeMs (timeframe s) \<longrightarrow>
      length (candles (processTrades s [tr1, tr2, tr3])) = length (candles s) + 2
    \<and> map timestamp (candles (processTrades s [tr1, tr2, tr3])) =
        map timestamp (candles s) @
        [bucketStart (timeframe s) (trade_T tr1),
         bucketStart (timeframe s) (trade_T tr1) + getTimeframeMs (timeframe s)]
    \<and> length (closedOf (emitted (processTrades s [tr1, tr2, tr3]))) = length (candles s) + 1
    \<and> (\<exists>n. currentCandle (processTrades s [tr1, tr2, tr3]) = Some n
           \<and> open' n = (if bucketStart (timeframe s) (trade_T tr2)
                             = bucketStart (timeframe s) (trade_T tr1)
                         then trade_p tr3 else trade_p tr2)
           \<and> (bucketStart (timeframe s) (trade_T tr2) = bucketStart (timeframe s) (trade_T tr1)
                \<longrightarrow> high n = trade_p tr3 \<and> low n = trade_p tr3 \<and> close n = trade_p tr3)))"
proof (intro conjI impI)
  assume a: "candleStartTime s < bucketStart (timeframe s) (trade_T trade)"
  show "processTrade s trade =
        applyTrade (startNewCandle s trade (bucketStart (timeframe s) (trade_T trade))) trade"
    using a by (rule processTrade_rollover)
  show "currentCandle (startNewCandle s trade (bucketStart (timeframe s) (trade_T trade))) =
        Some \<lparr>timestamp = bucketStart (timeframe s) (trade_T trade),
              open' = trade_p trade, high = trade_p trade,
              low = trade_p trade, close = trade_p trade,
              bidAskData = [], delta = 0, volume = 0,
              cvd = Some (case currentCandle s of None \<Rightarrow> 0 | Some c \<Rightarrow> orZero (cvd c))\<rparr>"
    by (simp add: startNewCandle_def split: option.splits)
  show "emitted (startNewCandle s trade (bucketStart (timeframe s) (trade_T trade))) =
        emitted s @ (case currentCandle s of None \<Rightarrow> [] | Some c \<Rightarrow> [Closed c])"
    by (simp add: startNewCandle_def)
  show "candles (processTrade s trade) =
        candles s @ [tradeInto (freshCandle (bucketStart (timeframe s) (trade_T trade))
                                  (trade_p trade) (seedOf s)) trade]"
    using a by (rule candles_rollover)
next
  assume "currentCandle s = None
        \<and> candleStartTime s < bucketStart (timeframe s) (trade_T tr1)
        \<and> trade_T tr2 = trade_T tr1 + 1
        \<and> trade_T tr3 = trade_T tr1 + getTimeframeMs (timeframe s)"
  then have h: "currentCandle s = None"
    "candleStartTime s < bucketStart (timeframe s) (trade_T tr1)"
    "trade_T tr2 = trade_T tr1 + 1"
    "trade_T tr3 = trade_T tr1 + getTimeframeMs (timeframe s)"
    by simp_all
  note r = three_trades [OF h]
  show "length (candles (processTrades s [tr1, tr2, tr3])) = length (candles s) + 2"
    using r by blast
  show "map timestamp (candles (processTrades s [tr1, tr2, tr3])) =
        map timestamp (candles s) @
        [bucketStart (timeframe s) (trade_T tr1),
         bucketStart (timeframe s) (trade_T tr1) + getTimeframeMs (timeframe s)]"
    using r by blast
  show "length (closedOf (emitted (processTrades s [tr1, tr2, tr3]))) = length (candles s) + 1"
    using r by blast
  show "\<exists>n. currentCandle (processTrades s [tr1, tr2, tr3]) = Some n
           \<and> open' n = (if bucketStart (timeframe s) (trade_T tr2)
                             = bucketStart (timeframe s) (trade_T tr1)
                         then trade_p tr3 else trade_p tr2)
           \<and> (bucketStart (timeframe s) (trade_T tr2) = bucketStart (timeframe s) (trade_T tr1)
                \<longrightarrow> high n = trade_p tr3 \<and> low n = trade_p tr3 \<and> close n = trade_p tr3)"
    using r by blast
qed

theorem rollover_on_candleStartTime_witness:
  "candleStartTime newConnector < bucketStart (timeframe newConnector) (trade_T rolloverTrade1)
   \<and> currentCandle newConnector = None
   \<and> trade_T rolloverTrade2 = trade_T rolloverTrade1 + 1
   \<and> trade_T rolloverTrade3 = trade_T rolloverTrade1 + getTimeframeMs (timeframe newConnector)
   \<and> length (candles (processTrades newConnector
               [rolloverTrade1, rolloverTrade2, rolloverTrade3])) = length (candles newConnector) + 2
   \<and> candles (processTrades newConnector [rolloverTrade1, rolloverTrade2, rolloverTrade3]) =
     [\<lparr>timestamp = 900000, open' = 100, high = 101, low = 100, close = 101,
       bidAskData = [\<lparr>price = 100, bidVol = 2, askVol = 0\<rparr>,
                     \<lparr>price = 101, bidVol = 0, askVol = 1\<rparr>],
       delta = 1, volume = 3, cvd = Some 1\<rparr>,
      \<lparr>timestamp = 1800000, open' = 102, high = 102, low = 102, close = 102,
       bidAskData = [\<lparr>price = 102, bidVol = 4, askVol = 0\<rparr>],
       delta = 4, volume = 4, cvd = Some 5\<rparr>]"
proof -
  have h1: "candleStartTime newConnector < bucketStart (timeframe newConnector) (trade_T rolloverTrade1)"
    by code_simp
  have h2: "currentCandle newConnector = None"
    "trade_T rolloverTrade2 = trade_T rolloverTrade1 + 1"
    "trade_T rolloverTrade3 = trade_T rolloverTrade1 + getTimeframeMs (timeframe newConnector)"
    by code_simp+
  have run: "candles (processTrades newConnector [rolloverTrade1, rolloverTrade2, rolloverTrade3]) =
     [\<lparr>timestamp = 900000, open' = 100, high = 101, low = 100, close = 101,
       bidAskData = [\<lparr>price = 100, bidVol = 2, askVol = 0\<rparr>,
                     \<lparr>price = 101, bidVol = 0, askVol = 1\<rparr>],
       delta = 1, volume = 3, cvd = Some 1\<rparr>,
      \<lparr>timestamp = 1800000, open' = 102, high = 102, low = 102, close = 102,
       bidAskData = [\<lparr>price = 102, bidVol = 4, askVol = 0\<rparr>],
       delta = 4, volume = 4, cvd = Some 5\<rparr>]"
    by code_simp
  from rollover_on_candleStartTime
         [of newConnector rolloverTrade1 rolloverTrade1 rolloverTrade2 rolloverTrade3] h1 h2
  have "length (candles (processTrades newConnector
               [rolloverTrade1, rolloverTrade2, rolloverTrade3])) = length (candles newConnector) + 2"
    by blast
  with h1 h2 run show ?thesis by blast
qed

text \<open>
  C4 as stated fails: subscribed at 900500 without a last candle, no open candle exists,
  yet a trade at 900600 (bucket 900000, the subscription's own bucket) creates none and is
  dropped.
\<close>

theorem no_candle_created_in_subscription_bucket:
  "currentCandle subscribedAt900500 = None
   \<and> bucketStart (timeframe subscribedAt900500) 900600 = 900000
   \<and> processTrade subscribedAt900500
        \<lparr>trade_T = 900600, trade_S = ''Buy'', trade_v = 2, trade_p = 100\<rparr> = subscribedAt900500
   \<and> candles (processTrade subscribedAt900500
        \<lparr>trade_T = 900600, trade_S = ''Buy'', trade_v = 2, trade_p = 100\<rparr>) = []"
  by code_simp

text \<open>
  C5 (as amended): for every list of \<open>N\<close> levels: if \<open>N \<le> maxRows\<close> the rows are the
  levels verbatim; if \<open>1 \<le> maxRows < N\<close>, with \<open>bucketSize = ceil(N / maxRows)\<close>, the rows
  are the contiguous groups of \<open>bucketSize\<close> levels in order (\<open>ceil(N / bucketSize)\<close> of
  them), each carrying the sum of its bid volumes, the sum of its ask volumes and the
  price of its element at index \<open>floor(groupSize / 2)\<close>; for every \<open>maxRows\<close> the total bid
  volume and the total ask volume of the rows equal those of the levels.
\<close>

theorem levelsToShow_buckets:
  "(int (length levels) \<le> maxRows \<longrightarrow> levelsToShow levels maxRows = levels)
   \<and> (0 < maxRows \<and> maxRows < int (length levels) \<longrightarrow>
        (let bucketSize = nat \<lceil>(of_nat (length levels) :: rat) / of_int maxRows\<rceil>
         in levelsToShow levels maxRows = map renderBucket (groupsOf bucketSize levels)
            \<and> concat (groupsOf bucketSize levels) = levels
            \<and> (\<forall>g \<in> set (groupsOf bucketSize levels). g \<noteq> [] \<and> length g \<le> bucketSize)
            \<and> length (levelsToShow levels maxRows)
                = (length levels + bucketSize - 1) div bucketSize))
   \<and> (\<Sum>b\<leftarrow>levelsToShow levels maxRows. bidVol b) = (\<Sum>l\<leftarrow>levels. bidVol l)
   \<and> (\<Sum>b\<leftarrow>levelsToShow levels maxRows. askVol b) = (\<Sum>l\<leftarrow>levels. askVol l)"
proof (intro conjI impI)
  show "levelsToShow levels maxRows = levels" if "int (length levels) \<le> maxRows"
    using that by (simp add: levelsToShow_verbatim)
  show "let bucketSize = nat \<lceil>(of_nat (length levels) :: rat) / of_int maxRows\<rceil>
         in levelsToShow levels maxRows = map renderBucket (groupsOf bucketSize levels)
            \<and> concat (groupsOf bucketSize levels) = levels
            \<and> (\<forall>g \<in> set (groupsOf bucketSize levels). g \<noteq> [] \<and> length g \<le> bucketSize)
            \<and> length (levelsToShow levels maxRows)
                = (length levels + bucketSize - 1) div bucketSize"
    if h: "0 < maxRows \<and> maxRows < int (length levels)"
  proof -
    let ?k = "nat \<lceil>(of_nat (length levels) :: rat) / of_int maxRows\<rceil>"
    have k: "0 < ?k" using h by (intro bucketSize_pos) simp_all
    have g: "levelsToShow levels maxRows = map renderBucket (groupsOf ?k levels)"
      using h by (intro levelsToShow_grouped) simp_all
    have "length (levelsToShow levels maxRows) = (length levels + ?k - 1) div ?k"
      unfolding g using groupsOf_length [OF k, of levels] by simp
    with g groupsOf_concat [OF k, of levels] groupsOf_nonempty [of _ ?k levels]
    show ?thesis unfolding Let_def by blast
  qed
  show "(\<Sum>b\<leftarrow>levelsToShow levels maxRows. bidVol b) = (\<Sum>l\<leftarrow>levels. bidVol l)"
    "(\<Sum>b\<leftarrow>levelsToShow levels maxRows. askVol b) = (\<Sum>l\<leftarrow>levels. askVol l)"
    using levelsToShow_conserves [of levels maxRows] by simp_all
qed

theorem levelsToShow_buckets_witness:
  "0 < (2::int) \<and> 2 < int (length fiveLevels)
   \<and> levelsToShow fiveLevels 2
       = map renderBucket (groupsOf (nat \<lceil>(of_nat (length fiveLevels) :: rat) / of_int 2\<rceil>) fiveLevels)
   \<and> int (length twoLevels) \<le> 2 \<and> levelsToShow twoLevels 2 = twoLevels
   \<and> levelsToShow fiveLevels 2
       = [\<lparr>price = 4, bidVol = 9, askVol = 12\<rparr>, \<lparr>price = 1, bidVol = 16, askVol = 18\<rparr>]"
proof -
  have h: "0 < (2::int) \<and> 2 < int (length fiveLevels)" "int (length twoLevels) \<le> 2"
    by (simp_all add: fiveLevels_def twoLevels_def)
  have v: "levelsToShow fiveLevels 2
       = [\<lparr>price = 4, bidVol = 9, askVol = 12\<rparr>, \<lparr>price = 1, bidVol = 16, askVol = 18\<rparr>]"
    by code_simp
  from levelsToShow_buckets [of fiveLevels 2] h(1)
  have "levelsToShow fiveLevels 2
       = map renderBucket (groupsOf (nat \<lceil>(of_nat (length fiveLevels) :: rat) / of_int 2\<rceil>) fiveLevels)"
    unfolding Let_def by blast
  moreover from levelsToShow_buckets [of twoLevels 2] h(2)
  have "levelsToShow twoLevels 2 = twoLevels" by blast
  ultimately show ?thesis using h v by blast
qed

text \<open>
  C5 as stated fails for \<open>maxRows = 0\<close>: with two levels the second rule applies
  (\<open>2 > 0\<close>) and groups both levels into one bucket, while the code, whose bucketing branch
  is guarded by \<open>maxLevels > 0\<close>, returns the two levels verbatim.
\<close>

theorem zero_row_budget_not_grouped:
  "\<not> int (length twoLevels) \<le> 0
   \<and> levelsToShow twoLevels 0
       = [\<lparr>price = 5, bidVol = 1, askVol = 2\<rparr>, \<lparr>price = 4, bidVol = 3, askVol = 4\<rparr>]
   \<and> bucket_spec twoLevels 0 = [\<lparr>price = 4, bidVol = 4, askVol = 6\<rparr>]
   \<and> levelsToShow twoLevels 0 \<noteq> bucket_spec twoLevels 0"
  by code_simp

text \<open>
  C6 (as amended): when \<open>maxRows \<le> 0\<close> the bucketer returns the levels unchanged, without
  aggregation and without an error.
\<close>

theorem no_row_budget_shows_all_levels:
  "maxLevels \<le> 0 \<Longrightarrow> levelsToShow sortedLevels maxLevels = sortedLevels"
  by (simp add: levelsToShow_verbatim)

theorem no_row_budget_shows_all_levels_witness:
  "(0::int) \<le> 0 \<and> levelsToShow fiveLevels 0 = fiveLevels"
  using no_row_budget_shows_all_levels [of 0 fiveLevels] by simp

text \<open>
  C6 as stated fails: a candle whose high and low map to the same pixel has
  \<open>maxLevels = 0\<close>, yet its level is returned and its footprint row is drawn.
\<close>

theorem footprint_row_drawn_without_row_budget:
  "\<lfloor>\<bar>the (flatCoordinate (low flatCandle)) - the (flatCoordinate (high flatCandle))\<bar>
      / max (min (max (100 * (15 / 100)) 7) 14 + 4) 10\<rfloor> = 0
   \<and> levelsToShow (sortedLevelsOf flatCandle) 0 = [\<lparr>price = 100, bidVol = 2, askVol = 0\<rparr>]
   \<and> levelsToShow (sortedLevelsOf flatCandle) 0 \<noteq> []
   \<and> drawCandle flatCoordinate (Some 10) 100 flatCandle
       = [\<lparr>row_y = 50, row_level = \<lparr>price = 100, bidVol = 2, askVol = 0\<rparr>,
           row_imbalance = Some Bid\<rparr>]"
  by code_simp




text \<open>
  C8: imbalance classification is a pure function of the two volumes. The result is
  \<open>bid\<close> exactly when \<open>bidVol \<ge> askVol * 3\<close>; the bid test comes first, so the result is
  \<open>ask\<close> exactly when the bid test fails and \<open>askVol \<ge> bidVol * 3\<close>; it is \<open>null\<close> exactly
  when both tests fail. In particular \<open>isImbalance(30,10) = bid\<close>,
  \<open>isImbalance(10,30) = ask\<close>, \<open>isImbalance(10,10) = null\<close> and
  \<open>isImbalance(29,10) = null\<close>.
\<close>

theorem isImbalance_classification:
  "(isImbalance b a = Some Bid \<longleftrightarrow> b \<ge> a * 3)
   \<and> (isImbalance b a = Some Ask \<longleftrightarrow> \<not> b \<ge> a * 3 \<and> a \<ge> b * 3)
   \<and> (isImbalance b a = None \<longleftrightarrow> \<not> b \<ge> a * 3 \<and> \<not> a \<ge> b * 3)
   \<and> isImbalance 30 10 = Some Bid
   \<and> isImbalance 10 30 = Some Ask
   \<and> isImbalance 10 10 = None
   \<and> isImbalance 29 10 = None"
  by (simp add: isImbalance_def)

text \<open>
  C9 (as amended): the open candle's levels hold every price key at most once, after
  every trade, whenever they did so before the first one (as in every candle the
  aggregator creates); \<open>updateBidAskData\<close> leaves the keys in place and pushes a new key
  at the end, so the levels are in order of first arrival, not in price order.
\<close>

theorem level_keys_unique_in_arrival_order:
  "(uniqueKeys s \<longrightarrow> uniqueKeys (processTrades s trades))
   \<and> uniqueKeys (processTrades (subscribeRealtime newConnector tf now None) trades)
   \<and> map price (updateLevels levels k vol side) =
       (if k \<in> set (map price levels) then map price levels else map price levels @ [k])"
proof (intro conjI impI)
  show "uniqueKeys (processTrades s trades)" if "uniqueKeys s"
    using that by (rule uniqueKeys_processTrades)
  show "uniqueKeys (processTrades (subscribeRealtime newConnector tf now None) trades)"
    by (rule uniqueKeys_processTrades) (simp add: uniqueKeys_def subscribeRealtime_def)
  show "map price (updateLevels levels k vol side) =
       (if k \<in> set (map price levels) then map price levels else map price levels @ [k])"
    by (rule map_price_updateLevels)
qed

theorem level_keys_unique_in_arrival_order_witness:
  "uniqueKeys newConnector
   \<and> uniqueKeys (processTrades newConnector unorderedTrades)
   \<and> map_option (map price o bidAskData) (currentCandle (processTrades newConnector unorderedTrades))
       = Some [100, 99, 101]"
proof -
  have u: "uniqueKeys newConnector" by (simp add: uniqueKeys_def newConnector_def)
  from level_keys_unique_in_arrival_order [of newConnector unorderedTrades] u
  have "uniqueKeys (processTrades newConnector unorderedTrades)" by blast
  moreover have "map_option (map price o bidAskData)
      (currentCandle (processTrades newConnector unorderedTrades)) = Some [100, 99, 101]"
    by code_simp
  ultimately show ?thesis using u by blast
qed

text \<open>
  C9 as stated fails: trades at 100, 99, 101 and 99 leave the keys \<open>[100, 99, 101]\<close>,
  sorted neither upwards nor downwards.
\<close>

theorem levels_not_ordered_by_price:
  "map_option (map price o bidAskData) (currentCandle (processTrades newConnector unorderedTrades))
     = Some [100, 99, 101]
   \<and> \<not> sorted [100, 99, 101 :: rat]
   \<and> \<not> sorted (rev [100, 99, 101 :: rat])"
  by code_simp

text \<open>
  C10: \<open>isImbalance(0, 0)\<close> returns \<open>bid\<close>: the bid branch is tested first and
  \<open>0 \<ge> 0 * 3\<close> holds, so a level with no volume on either side is classified as a
  bid imbalance.
\<close>

theorem isImbalance_zero_zero:
  "isImbalance 0 0 = Some Bid"
  by (simp add: isImbalance_def)

end
